theory Spec2Isabelle
  imports Main
begin

section \<open>The world the script runs in\<close>

text \<open>
  \<^verbatim>\<open>frontend/cleanup.py\<close> is a straight-line script: it changes into a fixed directory,
  unlinks a fixed list of files, unlinks what \<^verbatim>\<open>glob.glob('test-*.html')\<close> returns, and
  unlinks itself. Everything it does is an effect on the file system and on standard
  output, so the model threads a record of both through every call.

  The file system is an association list from canonical absolute paths to nodes; its order
  is the order in which a directory scan returns entries. A node is a directory or a file,
  and carries whether \<^verbatim>\<open>unlink(2)\<close> is permitted on it. There is one process and no
  symbolic link: what \<^verbatim>\<open>os.path.exists\<close> sees is what \<^verbatim>\<open>os.remove\<close> finds. In the first
  rendering of the script, writing to standard output always succeeds, so the only calls
  that raise are \<^verbatim>\<open>os.chdir\<close> and \<^verbatim>\<open>os.remove\<close>; the second rendering lifts that, and agrees
  with the first on a standard output that takes everything.
\<close>

type_synonym path = string

record node =
  is_dir :: bool
  may_unlink :: bool

type_synonym fs = "(path \<times> node) list"

text \<open>
  The exceptions of the \<^verbatim>\<open>os\<close> calls; each carries the file name the call was given.
  The last two are what \<^verbatim>\<open>print\<close> raises when standard output cannot encode the text, or
  is a pipe nobody reads any more. All are subclasses of \<^verbatim>\<open>Exception\<close>.
\<close>

datatype exn =
    FileNotFoundError path
  | NotADirectoryError path
  | IsADirectoryError path
  | PermissionError path
  | UnicodeEncodeError string
  | BrokenPipeError

text \<open>
  \<open>out\<close> holds the argument of every \<^verbatim>\<open>print\<close> call, oldest first (\<^verbatim>\<open>print\<close> itself ends
  each with a newline). \<open>unlinks\<close> is the trace of the \<^verbatim>\<open>os.remove\<close> calls: the argument
  of each call and the exception it raised, if any.
\<close>

record world =
  files :: fs
  cwd :: path
  out :: "string list"
  unlinks :: "(path \<times> exn option) list"

section \<open>Library calls\<close>

definition isabs :: "path \<Rightarrow> bool" where
  "isabs p = (case p of [] \<Rightarrow> False | c # _ \<Rightarrow> c = CHR ''/'')"

definition dir_prefix :: "path \<Rightarrow> path" where
  "dir_prefix a = (if a = [] \<or> last a = CHR ''/'' then a else a @ ''/'')"

text \<open>\<^verbatim>\<open>posixpath.join(a, b)\<close>: an absolute \<open>b\<close> replaces \<open>a\<close>; otherwise \<open>b\<close> is appended
  after one separator. The kernel resolves a relative path against the working directory
  in the same way.\<close>

definition os_path_join :: "path \<Rightarrow> path \<Rightarrow> path" where
  "os_path_join a b = (if isabs b then b else dir_prefix a @ b)"

definition resolve :: "world \<Rightarrow> path \<Rightarrow> path" where
  "resolve w p = os_path_join (cwd w) p"

definition os_path_exists :: "path \<Rightarrow> world \<Rightarrow> bool" where
  "os_path_exists p w = (map_of (files w) (resolve w p) \<noteq> None)"

definition os_chdir :: "path \<Rightarrow> world \<Rightarrow> exn option \<times> world" where
  "os_chdir p w =
     (let target = resolve w p in
      case map_of (files w) target of
        None \<Rightarrow> (Some (FileNotFoundError p), w)
      | Some n \<Rightarrow>
          if is_dir n then (None, w\<lparr>cwd := target\<rparr>)
          else (Some (NotADirectoryError p), w))"

text \<open>What \<^verbatim>\<open>unlink(2)\<close> answers for an absolute path: the exception, or \<open>None\<close> when the
  entry can go. A directory is never unlinked.\<close>

definition unlink_check :: "fs \<Rightarrow> path \<Rightarrow> path \<Rightarrow> exn option" where
  "unlink_check fs target p =
     (case map_of fs target of
        None \<Rightarrow> Some (FileNotFoundError p)
      | Some n \<Rightarrow>
          if is_dir n then Some (IsADirectoryError p)
          else if may_unlink n then None
          else Some (PermissionError p))"

definition unlink :: "path \<Rightarrow> fs \<Rightarrow> fs" where
  "unlink target fs = filter (\<lambda>(k, n). k \<noteq> target) fs"

definition os_remove :: "path \<Rightarrow> world \<Rightarrow> exn option \<times> world" where
  "os_remove p w =
     (let target = resolve w p;
          r = unlink_check (files w) target p;
          w' = w\<lparr>unlinks := unlinks w @ [(p, r)]\<rparr>
      in case r of
           Some e \<Rightarrow> (Some e, w')
         | None \<Rightarrow> (None, w'\<lparr>files := unlink target (files w)\<rparr>))"

definition print :: "string \<Rightarrow> world \<Rightarrow> world" where
  "print s w = w\<lparr>out := out w @ [s]\<rparr>"

text \<open>\<^verbatim>\<open>str(e)\<close>: for an \<^verbatim>\<open>OSError\<close> of a file, errno, message and the quoted file name.\<close>

definition quoted :: "string \<Rightarrow> string" where
  "quoted s = [CHR 0x27] @ s @ [CHR 0x27]"

fun str :: "exn \<Rightarrow> string" where
  "str (FileNotFoundError p) = ''[Errno 2] No such file or directory: '' @ quoted p"
| "str (NotADirectoryError p) = ''[Errno 20] Not a directory: '' @ quoted p"
| "str (IsADirectoryError p) = ''[Errno 21] Is a directory: '' @ quoted p"
| "str (PermissionError p) = ''[Errno 13] Permission denied: '' @ quoted p"
| "str (UnicodeEncodeError s) = ''codec cannot encode the text''"
| "str BrokenPipeError = ''[Errno 32] Broken pipe''"

subsection \<open>\<^verbatim>\<open>glob.glob\<close> for a pattern without a directory part\<close>

text \<open>\<^verbatim>\<open>fnmatch\<close> for patterns made of literal characters and \<^verbatim>\<open>*\<close>, which stands for any
  run of characters, the empty one too.\<close>

fun fnmatch :: "string \<Rightarrow> string \<Rightarrow> bool" where
  "fnmatch [] [] = True"
| "fnmatch [] (c # cs) = False"
| "fnmatch (p # ps) [] = (p = CHR ''*'' \<and> fnmatch ps [])"
| "fnmatch (p # ps) (c # cs) =
     (if p = CHR ''*'' then fnmatch ps (c # cs) \<or> fnmatch (p # ps) cs
      else p = c \<and> fnmatch ps cs)"

definition ishidden :: "string \<Rightarrow> bool" where
  "ishidden name = (case name of [] \<Rightarrow> False | c # _ \<Rightarrow> c = CHR ''.'')"

text \<open>The entries of directory \<open>d\<close>: the paths one name below it.\<close>

definition entry_of :: "path \<Rightarrow> path \<Rightarrow> bool" where
  "entry_of d p =
     (let pre = dir_prefix d; name = drop (length pre) p
      in take (length pre) p = pre \<and> name \<noteq> [] \<and> CHR ''/'' \<notin> set name)"

definition listdir :: "path \<Rightarrow> fs \<Rightarrow> string list" where
  "listdir d fs =
     map (\<lambda>(p, n). drop (length (dir_prefix d)) p) (filter (\<lambda>(p, n). entry_of d p) fs)"

text \<open>The names of the working directory that match, in scan order; a dot file is
  listed only for a pattern that starts with a dot.\<close>

definition glob_glob :: "string \<Rightarrow> world \<Rightarrow> string list" where
  "glob_glob pattern w =
     filter (\<lambda>name. fnmatch pattern name)
       (filter (\<lambda>name. ishidden pattern \<or> \<not> ishidden name) (listdir (cwd w) (files w)))"

section \<open>The script\<close>

definition frontend_dir :: path where
  "frontend_dir = ''/Users/andeslee/Documents/Cursor-Projects/Project-H/frontend''"

definition files_to_remove :: "string list" where
  "files_to_remove =
    [ ''FIX_DATABASE_NOW.sql'',
      ''FIX_RLS_POLICIES_HIPAA_COMPLIANT.sql'',
      ''DISCOVER_REAL_SCHEMA.sql'',
      ''SIMPLE_FIX_JUST_MAKE_IT_WORK.sql'',
      ''REAL_FIX_BASED_ON_ACTUAL_SCHEMA.sql'',
      ''fix-rls-policies.sql'',
      ''update-patient-phones.sql'',
      ''update-patient-phones.html'',
      ''waitlist-preview.html'',
      ''debug-supabase.html'',
      ''debug-integration-test.js'',
      ''debug-test.js'',
      ''debug-supabase-hang.js'',
      ''run-seed-now.js'',
      ''execute-rls-fixes.js'',
      ''update-all-patient-phones.js'',
      ''SUMMARY_FIXES_COMPLETE.md'',
      ''SUPABASE_RLS_FIX_INSTRUCTIONS.md'',
      ''cleanup-temp-files.sh'',
      ''public/test-supabase.html'',
      ''perform-cleanup.sh'',
      ''cleanup.js'' ]"

text \<open>The check mark U+2713 and the ballot cross U+2717 of the messages, in UTF-8.\<close>

definition check_mark :: string where
  "check_mark = [CHR 0xE2, CHR 0x9C, CHR 0x93]"

definition cross_mark :: string where
  "cross_mark = [CHR 0xE2, CHR 0x9C, CHR 0x97]"

definition removed_msg :: "string \<Rightarrow> string" where
  "removed_msg file = check_mark @ '' Removed: '' @ file"

definition skipped_msg :: "string \<Rightarrow> string" where
  "skipped_msg file = ''- Skipped (not found): '' @ file"

definition error_msg :: "string \<Rightarrow> exn \<Rightarrow> string" where
  "error_msg file e = cross_mark @ '' Error removing '' @ file @ '': '' @ str e"

definition script_removed_msg :: string where
  "script_removed_msg = check_mark @ '' Cleanup script removed''"

definition script_error_msg :: "exn \<Rightarrow> string" where
  "script_error_msg e = cross_mark @ '' Error removing cleanup script: '' @ str e"

text \<open>The body of the first loop (lines 52 to 60), for one \<^verbatim>\<open>file\<close> of the list.\<close>

definition remove_listed_file :: "string \<Rightarrow> world \<Rightarrow> world" where
  "remove_listed_file file w =
     (let file_path = os_path_join frontend_dir file in
      if os_path_exists file_path w then
        (case os_remove file_path w of
           (None, w') \<Rightarrow> print (removed_msg file) w'
         | (Some e, w') \<Rightarrow> print (error_msg file e) w')
      else print (skipped_msg file) w)"

text \<open>The body of the second loop (lines 66 to 70), for one match of the pattern.\<close>

definition remove_test_file :: "string \<Rightarrow> world \<Rightarrow> world" where
  "remove_test_file file w =
     (case os_remove file w of
        (None, w') \<Rightarrow> print (removed_msg file) w'
      | (Some e, w') \<Rightarrow> print (error_msg file e) w')"

text \<open>Lines 76 to 80; \<open>script\<close> is the value of \<^verbatim>\<open>__file__\<close>.\<close>

definition remove_script :: "path \<Rightarrow> world \<Rightarrow> world" where
  "remove_script script w =
     (case os_remove script w of
        (None, w') \<Rightarrow> print script_removed_msg w'
      | (Some e, w') \<Rightarrow> print (script_error_msg e) w')"

text \<open>Lines 51 to 60 and lines 63 to 70: the two loops.\<close>

definition remove_listed :: "world \<Rightarrow> world" where
  "remove_listed w = fold remove_listed_file files_to_remove w"

definition remove_tests :: "world \<Rightarrow> world" where
  "remove_tests w =
     (let w1 = print ([CHR 0x0A] @ ''Removing test-*.html files...'') w;
          test_files = glob_glob ''test-*.html'' w1
      in fold remove_test_file test_files w1)"

text \<open>Lines 48 to 70: everything between the change of directory and the farewell.\<close>

definition deletion_logic :: "world \<Rightarrow> world" where
  "deletion_logic w =
     remove_tests (remove_listed (print (''Starting cleanup of temporary files...'' @ [CHR 0x0A]) w))"

text \<open>
  The whole script. The first component of the result is the exception that ended the
  process, \<open>None\<close> for a normal end (exit status 0); the second is the world it leaves.
\<close>

definition cleanup :: "path \<Rightarrow> world \<Rightarrow> exn option \<times> world" where
  "cleanup script w0 =
     (case os_chdir frontend_dir w0 of
        (Some e, w) \<Rightarrow> (Some e, w)
      | (None, w1) \<Rightarrow>
          (let w2 = deletion_logic w1;
               w3 = print ([CHR 0x0A] @ ''Cleanup complete!'') w2;
               w4 = print ([CHR 0x0A] @ ''Removing cleanup script...'') w3
           in (None, remove_script script w4)))"

section \<open>The script on a standard output that may refuse\<close>




definition try_except ::
  "exn option \<times> world \<Rightarrow> (exn \<Rightarrow> world \<Rightarrow> exn option \<times> world) \<Rightarrow> exn option \<times> world" where
  "try_except r handler = (case r of (None, w) \<Rightarrow> (None, w) | (Some e, w) \<Rightarrow> handler e w)"










section \<open>Notions the properties are stated with\<close>

text \<open>An entry that \<^verbatim>\<open>unlink(2)\<close> accepts: present, not a directory, and permitted.\<close>

definition deletable :: "fs \<Rightarrow> path \<Rightarrow> bool" where
  "deletable fs t = (case map_of fs t of None \<Rightarrow> False | Some n \<Rightarrow> \<not> is_dir n \<and> may_unlink n)"

definition try_unlink :: "path \<Rightarrow> fs \<Rightarrow> fs" where
  "try_unlink t fs = (if deletable fs t then unlink t fs else fs)"








text \<open>The paths the pattern \<^verbatim>\<open>test-*.html\<close> denotes in the directory the script works in.\<close>

definition test_html_path :: "path \<Rightarrow> bool" where
  "test_html_path q =
     (entry_of frontend_dir q \<and>
      fnmatch ''test-*.html'' (drop (length (dir_prefix frontend_dir)) q))"

text \<open>The file the last \<^verbatim>\<open>os.remove\<close> names: \<^verbatim>\<open>__file__\<close> is the absolute path of the script
  (a relative value is read, as the kernel reads it, from the directory the script has
  changed into).\<close>

definition script_target :: "path \<Rightarrow> path" where
  "script_target script = os_path_join frontend_dir script"

subsection \<open>Concrete worlds\<close>

definition dir_node :: node where
  "dir_node = \<lparr>is_dir = True, may_unlink = False\<rparr>"

definition plain_file :: node where
  "plain_file = \<lparr>is_dir = False, may_unlink = True\<rparr>"

definition locked_file :: node where
  "locked_file = \<lparr>is_dir = False, may_unlink = False\<rparr>"

definition boot :: "fs \<Rightarrow> world" where
  "boot fs = \<lparr>files = fs, cwd = ''/'', out = [], unlinks = []\<rparr>"

definition in_frontend :: "string \<Rightarrow> path" where
  "in_frontend name = frontend_dir @ ''/'' @ name"

definition script_path :: path where
  "script_path = in_frontend ''cleanup.py''"

text \<open>A machine without the frontend directory; the script lies elsewhere.\<close>

definition stray_fs :: fs where
  "stray_fs = [(''/tmp/cleanup.py'', plain_file), (''/tmp/test-x.html'', plain_file)]"

text \<open>The frontend directory with one file of each kind the script looks for, a test page
  in a subdirectory and a file the script has no business with.\<close>

definition project_fs :: fs where
  "project_fs =
     [(frontend_dir, dir_node),
      (in_frontend ''FIX_DATABASE_NOW.sql'', plain_file),
      (in_frontend ''test-x.html'', plain_file),
      (in_frontend ''public'', dir_node),
      (in_frontend ''public/test-y.html'', plain_file),
      (in_frontend ''notes.txt'', plain_file),
      (script_path, plain_file)]"






subsection \<open>What a run prints and calls, as functions of the file system it starts in\<close>

text \<open>The line the first loop prints for \<open>f\<close>, and the \<^verbatim>\<open>os.remove\<close> call it makes, if any.\<close>

definition listed_line :: "fs \<Rightarrow> string \<Rightarrow> string" where
  "listed_line fs f =
     (case map_of fs (in_frontend f) of
        None \<Rightarrow> skipped_msg f
      | Some n \<Rightarrow>
         (case unlink_check fs (in_frontend f) (in_frontend f) of
            None \<Rightarrow> removed_msg f
          | Some e \<Rightarrow> error_msg f e))"

definition listed_call :: "fs \<Rightarrow> string \<Rightarrow> (path \<times> exn option) list" where
  "listed_call fs f =
     (case map_of fs (in_frontend f) of
        None \<Rightarrow> []
      | Some n \<Rightarrow> [(in_frontend f, unlink_check fs (in_frontend f) (in_frontend f))])"

text \<open>The line the second loop prints for a match.\<close>

definition test_line :: "fs \<Rightarrow> path \<Rightarrow> string \<Rightarrow> string" where
  "test_line fs t file =
     (case unlink_check fs t file of None \<Rightarrow> removed_msg file | Some e \<Rightarrow> error_msg file e)"

text \<open>The calls of the second loop over the names \<open>ns\<close> in directory \<open>d\<close>, each with
  its outcome in the file system its predecessors left, and the line for an outcome.\<close>

fun test_outcomes :: "fs \<Rightarrow> path \<Rightarrow> string list \<Rightarrow> (path \<times> exn option) list" where
  "test_outcomes fs d [] = []"
| "test_outcomes fs d (n # ns) =
     (n, unlink_check fs (os_path_join d n) n) # test_outcomes (try_unlink (os_path_join d n) fs) d ns"

definition outcome_line :: "path \<times> exn option \<Rightarrow> string" where
  "outcome_line c = (case snd c of None \<Rightarrow> removed_msg (fst c) | Some e \<Rightarrow> error_msg (fst c) e)"

definition script_line :: "fs \<Rightarrow> path \<Rightarrow> string \<Rightarrow> string" where
  "script_line fs t s =
     (case unlink_check fs t s of None \<Rightarrow> script_removed_msg | Some e \<Rightarrow> script_error_msg e)"

text \<open>The file system after the first loop; the names the pattern matches in the frontend
  directory; the file system after the second loop.\<close>

definition after_listed :: "fs \<Rightarrow> fs" where
  "after_listed fs = fold try_unlink (map in_frontend files_to_remove) fs"

definition test_names :: "fs \<Rightarrow> string list" where
  "test_names fs =
     map (\<lambda>(p, n). drop (length (dir_prefix frontend_dir)) p) (filter (\<lambda>(p, n). test_html_path p) fs)"

definition after_tests :: "fs \<Rightarrow> fs" where
  "after_tests fs = fold try_unlink (map in_frontend (test_names fs)) (after_listed fs)"

text \<open>All \<^verbatim>\<open>os.remove\<close> calls and all lines of a run that got past \<^verbatim>\<open>os.chdir\<close>.\<close>

definition run_calls :: "fs \<Rightarrow> path \<Rightarrow> (path \<times> exn option) list" where
  "run_calls fs script =
     concat (map (listed_call fs) files_to_remove)
     @ test_outcomes (after_listed fs) frontend_dir (test_names fs)
     @ [(script, unlink_check (after_tests fs) (script_target script) script)]"

definition run_lines :: "fs \<Rightarrow> path \<Rightarrow> string list" where
  "run_lines fs script =
     [''Starting cleanup of temporary files...'' @ [CHR 0x0A]]
     @ map (listed_line fs) files_to_remove
     @ [CHR 0x0A # ''Removing test-*.html files...'']
     @ map outcome_line (test_outcomes (after_listed fs) frontend_dir (test_names fs))
     @ [CHR 0x0A # ''Cleanup complete!'', CHR 0x0A # ''Removing cleanup script...'',
        script_line (after_tests fs) (script_target script) script]"

section \<open>Paths and the fixed list\<close>

lemma isabs_frontend_dir: "isabs frontend_dir"
  by (simp add: frontend_dir_def isabs_def)

lemma dir_prefix_frontend_dir: "dir_prefix frontend_dir = frontend_dir @ ''/''"
  by (simp add: frontend_dir_def dir_prefix_def)

lemma join_frontend_rel: "\<not> isabs b \<Longrightarrow> os_path_join frontend_dir b = in_frontend b"
  by (simp add: os_path_join_def dir_prefix_frontend_dir in_frontend_def)

lemma join_abs: "isabs b \<Longrightarrow> os_path_join a b = b"
  by (simp add: os_path_join_def)

lemma in_frontend_inject: "in_frontend a = in_frontend b \<longleftrightarrow> a = b"
  by (simp add: in_frontend_def)

lemma isabs_in_frontend: "isabs (in_frontend b)"
  by (simp add: in_frontend_def isabs_def frontend_dir_def)

lemma in_frontend_neq_dir: "in_frontend b \<noteq> frontend_dir" "frontend_dir \<noteq> in_frontend b"
  by (simp_all add: in_frontend_def)

lemma listed_relative: "f \<in> set files_to_remove \<Longrightarrow> \<not> isabs f"
  by (auto simp add: files_to_remove_def isabs_def)

lemma distinct_files_to_remove: "distinct files_to_remove"
  by (simp add: files_to_remove_def)

lemma listed_not_test_html: "f \<in> set files_to_remove \<Longrightarrow> \<not> test_html_path (in_frontend f)"
  by (auto simp add: files_to_remove_def test_html_path_def entry_of_def dir_prefix_frontend_dir in_frontend_def)

section \<open>The library calls and the loop bodies\<close>

lemma map_of_unlink: "map_of (unlink t fs) q = (if q = t then None else map_of fs q)"
  by (induction fs) (auto simp add: unlink_def)

lemma unlink_check_None: "unlink_check fs t p = None \<longleftrightarrow> deletable fs t"
  by (simp add: unlink_check_def deletable_def split: option.splits)

lemma try_unlink_filter: "try_unlink t fs = filter (\<lambda>(k, n). \<not> (k = t \<and> deletable fs t)) fs"
  by (simp add: try_unlink_def unlink_def)

lemma map_of_try_unlink:
  "map_of (try_unlink t fs) q = (if q = t \<and> deletable fs t then None else map_of fs q)"
  by (simp add: try_unlink_def map_of_unlink)

lemma deletable_try_unlink: "deletable (try_unlink t fs) q \<longleftrightarrow> deletable fs q \<and> q \<noteq> t"
  by (auto simp add: deletable_def map_of_try_unlink split: option.splits)

lemma print_fields [simp]:
  "files (print s w) = files w" "cwd (print s w) = cwd w"
  "out (print s w) = out w @ [s]" "unlinks (print s w) = unlinks w"
  by (simp_all add: print_def)

lemma resolve_print [simp]: "resolve (print s w) p = resolve w p"
  by (simp add: resolve_def)

lemma os_remove_fst: "fst (os_remove p w) = unlink_check (files w) (resolve w p) p"
  by (simp add: os_remove_def Let_def split: option.splits)

lemma os_remove_fields:
  "files (snd (os_remove p w)) = try_unlink (resolve w p) (files w)"
  "cwd (snd (os_remove p w)) = cwd w"
  "out (snd (os_remove p w)) = out w"
  "unlinks (snd (os_remove p w)) = unlinks w @ [(p, unlink_check (files w) (resolve w p) p)]"
  using unlink_check_None [of "files w" "resolve w p" p]
  by (auto simp add: os_remove_def Let_def try_unlink_def split: option.splits)

lemma remove_test_file_fields:
  "files (remove_test_file f w) = try_unlink (resolve w f) (files w)"
  "cwd (remove_test_file f w) = cwd w"
  "out (remove_test_file f w) = out w @ [test_line (files w) (resolve w f) f]"
  "unlinks (remove_test_file f w) =
     unlinks w @ [(f, unlink_check (files w) (resolve w f) f)]"
  using os_remove_fst [of f w] os_remove_fields [of f w]
  by (auto simp add: remove_test_file_def test_line_def split: prod.splits option.splits)

lemma resolve_abs: "isabs p \<Longrightarrow> resolve w p = p"
  by (simp add: resolve_def os_path_join_def)

lemma resolve_in_frontend [simp]: "resolve w (in_frontend f) = in_frontend f"
  by (simp add: resolve_abs isabs_in_frontend)

lemma try_unlink_absent: "map_of fs t = None \<Longrightarrow> try_unlink t fs = fs"
  by (simp add: try_unlink_def deletable_def)

lemma remove_listed_file_fields:
  assumes "\<not> isabs f"
  shows "files (remove_listed_file f w) = try_unlink (in_frontend f) (files w)"
    and "cwd (remove_listed_file f w) = cwd w"
    and "out (remove_listed_file f w) = out w @ [listed_line (files w) f]"
    and "unlinks (remove_listed_file f w) = unlinks w @ listed_call (files w) f"
  using os_remove_fst [of "in_frontend f" w] os_remove_fields [of "in_frontend f" w] assms
  by (auto simp add: remove_listed_file_def join_frontend_rel os_path_exists_def Let_def
      listed_line_def listed_call_def try_unlink_absent split: prod.splits option.splits)

section \<open>The loops\<close>

lemma map_of_filter_keys:
  "map_of (filter (\<lambda>(k, n). P k) fs) q = (if P q then map_of fs q else None)"
  by (induction fs) auto

lemma fold_try_unlink:
  "fold try_unlink ts fs = filter (\<lambda>(k, n). \<not> (k \<in> set ts \<and> deletable fs k)) fs"
proof (induction ts arbitrary: fs)
  case Nil
  then show ?case by simp
next
  case (Cons t ts)
  have "fold try_unlink (t # ts) fs =
      filter (\<lambda>(k, n). \<not> (k \<in> set ts \<and> deletable (try_unlink t fs) k)) (try_unlink t fs)"
    by (simp add: Cons.IH)
  also have "\<dots> =
      filter (\<lambda>(k, n). \<not> (k \<in> set ts \<and> deletable fs k \<and> k \<noteq> t)) (try_unlink t fs)"
    by (simp only: deletable_try_unlink)
  also have "\<dots> =
      filter (\<lambda>(k, n). \<not> (k \<in> set ts \<and> deletable fs k \<and> k \<noteq> t))
        (filter (\<lambda>(k, n). \<not> (k = t \<and> deletable fs t)) fs)"
    by (simp only: try_unlink_filter)
  also have "\<dots> = filter (\<lambda>(k, n). \<not> (k \<in> set (t # ts) \<and> deletable fs k)) fs"
    unfolding filter_filter by (rule filter_cong) auto
  finally show ?case .
qed

lemma map_of_fold_try_unlink:
  "map_of (fold try_unlink ts fs) q = (if q \<in> set ts \<and> deletable fs q then None else map_of fs q)"
  by (simp add: fold_try_unlink map_of_filter_keys)

lemma deletable_fold_try_unlink:
  "deletable (fold try_unlink ts fs) q \<longleftrightarrow> deletable fs q \<and> q \<notin> set ts"
  by (auto simp add: deletable_def map_of_fold_try_unlink split: option.splits)

lemma fold_remove_test_file:
  "cwd (fold remove_test_file ns w) = cwd w"
  "files (fold remove_test_file ns w) = fold try_unlink (map (os_path_join (cwd w)) ns) (files w)"
  "out (fold remove_test_file ns w) = out w @ map outcome_line (test_outcomes (files w) (cwd w) ns)"
  "unlinks (fold remove_test_file ns w) = unlinks w @ test_outcomes (files w) (cwd w) ns"
  by (induction ns arbitrary: w)
    (simp_all add: remove_test_file_fields resolve_def outcome_line_def test_line_def
      split: option.splits)

lemma unlink_check_cong:
  "map_of fs' t = map_of fs t \<Longrightarrow> unlink_check fs' t p = unlink_check fs t p"
  by (simp add: unlink_check_def)

lemma listed_line_try_unlink:
  "g \<noteq> f \<Longrightarrow> listed_line (try_unlink (in_frontend f) fs) g = listed_line fs g"
proof -
  assume "g \<noteq> f"
  then have m: "map_of (try_unlink (in_frontend f) fs) (in_frontend g) = map_of fs (in_frontend g)"
    by (simp add: map_of_try_unlink in_frontend_inject)
  show ?thesis
    unfolding listed_line_def m unlink_check_cong [OF m] by (rule refl)
qed

lemma listed_call_try_unlink:
  "g \<noteq> f \<Longrightarrow> listed_call (try_unlink (in_frontend f) fs) g = listed_call fs g"
proof -
  assume "g \<noteq> f"
  then have m: "map_of (try_unlink (in_frontend f) fs) (in_frontend g) = map_of fs (in_frontend g)"
    by (simp add: map_of_try_unlink in_frontend_inject)
  show ?thesis
    unfolding listed_call_def m unlink_check_cong [OF m] by (rule refl)
qed

lemma fold_remove_listed_file:
  assumes "distinct fl" and "\<forall>f \<in> set fl. \<not> isabs f"
  shows "cwd (fold remove_listed_file fl w) = cwd w"
    and "files (fold remove_listed_file fl w) = fold try_unlink (map in_frontend fl) (files w)"
    and "out (fold remove_listed_file fl w) = out w @ map (listed_line (files w)) fl"
    and "unlinks (fold remove_listed_file fl w) = unlinks w @ concat (map (listed_call (files w)) fl)"
  using assms
  by (induction fl arbitrary: w)
    (auto simp add: remove_listed_file_fields intro!: map_cong arg_cong [where f = concat]
      listed_line_try_unlink listed_call_try_unlink)

section \<open>The pattern\<close>

lemma fnmatch_test_html_not_hidden: "fnmatch ''test-*.html'' name \<Longrightarrow> \<not> ishidden name"
  by (cases name) (auto simp add: ishidden_def)

lemma glob_glob_in_frontend:
  assumes "cwd w = frontend_dir"
  shows "glob_glob ''test-*.html'' w =
    map (\<lambda>(p, n). drop (length (dir_prefix frontend_dir)) p)
      (filter (\<lambda>(p, n). test_html_path p) (files w))"
proof -
  have "filter (\<lambda>x. fnmatch ''test-*.html'' (drop (length (dir_prefix frontend_dir)) (fst x))
            \<and> (ishidden ''test-*.html''
                 \<or> \<not> ishidden (drop (length (dir_prefix frontend_dir)) (fst x)))
            \<and> entry_of frontend_dir (fst x)) (files w) =
        filter (\<lambda>x. test_html_path (fst x)) (files w)"
    by (rule filter_cong) (auto simp add: test_html_path_def dest: fnmatch_test_html_not_hidden)
  then have "glob_glob ''test-*.html'' w =
      map (\<lambda>x. drop (length (dir_prefix frontend_dir)) (fst x))
        (filter (\<lambda>x. test_html_path (fst x)) (files w))"
    by (simp add: glob_glob_def listdir_def assms filter_map o_def case_prod_beta conj_ac)
  then show ?thesis
    by (simp add: case_prod_unfold)
qed

lemma filter_test_html_survivors:
  assumes "\<forall>k \<in> T. \<not> test_html_path k"
  shows "filter (\<lambda>(p, n). test_html_path p) (filter (\<lambda>(k, n). \<not> (k \<in> T \<and> D k)) fs) =
         filter (\<lambda>(p, n). test_html_path p) fs"
  unfolding filter_filter using assms by (intro filter_cong) auto

lemma glob_names:
  assumes "name \<in> set (glob_glob ''test-*.html'' w)" and "cwd w = frontend_dir"
  shows "test_html_path (in_frontend name)" and "map_of (files w) (in_frontend name) \<noteq> None"
    and "\<not> isabs name" and "CHR ''/'' \<notin> set name" and "fnmatch ''test-*.html'' name"
proof -
  from assms obtain p n where pn: "(p, n) \<in> set (files w)" "test_html_path p"
    and name: "name = drop (length (dir_prefix frontend_dir)) p"
    by (auto simp add: glob_glob_in_frontend)
  from pn(2) have "take (length (dir_prefix frontend_dir)) p = dir_prefix frontend_dir"
    by (simp add: test_html_path_def entry_of_def Let_def)
  then have p: "p = in_frontend name"
    using append_take_drop_id [of "length (dir_prefix frontend_dir)" p]
    by (simp add: name in_frontend_def dir_prefix_frontend_dir)
  show "test_html_path (in_frontend name)" using pn(2) p by simp
  show "map_of (files w) (in_frontend name) \<noteq> None"
    using pn(1) p by (metis map_of_eq_None_iff fst_conv image_eqI)
  from pn(2) show "fnmatch ''test-*.html'' name" by (simp add: test_html_path_def name)
  from pn(2) show "CHR ''/'' \<notin> set name"
    by (simp add: test_html_path_def entry_of_def Let_def name)
  then show "\<not> isabs name" by (cases name) (auto simp add: isabs_def)
qed

section \<open>The phases of a run\<close>

lemma remove_script_fields:
  "files (remove_script s w) = try_unlink (resolve w s) (files w)"
  "cwd (remove_script s w) = cwd w"
  "out (remove_script s w) = out w @ [script_line (files w) (resolve w s) s]"
  "unlinks (remove_script s w) = unlinks w @ [(s, unlink_check (files w) (resolve w s) s)]"
  using os_remove_fst [of s w] os_remove_fields [of s w]
  by (auto simp add: remove_script_def script_line_def split: prod.splits option.splits)

lemma remove_listed_fields:
  "cwd (remove_listed w) = cwd w"
  "files (remove_listed w) = fold try_unlink (map in_frontend files_to_remove) (files w)"
  "out (remove_listed w) = out w @ map (listed_line (files w)) files_to_remove"
  "unlinks (remove_listed w) = unlinks w @ concat (map (listed_call (files w)) files_to_remove)"
  unfolding remove_listed_def
  using fold_remove_listed_file [OF distinct_files_to_remove, of w] listed_relative
  by blast+

lemma glob_after_listed:
  assumes "cwd w = frontend_dir"
  shows "glob_glob ''test-*.html'' (print h (remove_listed w)) = glob_glob ''test-*.html'' w"
proof -
  let ?w' = "print h (remove_listed w)"
  have n: "\<forall>k \<in> set (map in_frontend files_to_remove). \<not> test_html_path k"
    using listed_not_test_html by auto
  have c: "cwd ?w' = frontend_dir"
    by (simp add: remove_listed_fields assms)
  have f: "files ?w' = filter (\<lambda>(k, n). \<not> (k \<in> set (map in_frontend files_to_remove)
      \<and> deletable (files w) k)) (files w)"
    by (simp only: print_fields remove_listed_fields fold_try_unlink)
  show ?thesis
    unfolding glob_glob_in_frontend [OF c] glob_glob_in_frontend [OF assms] f
      filter_test_html_survivors [OF n]
    by (rule refl)
qed

lemma remove_tests_fields:
  "cwd (remove_tests w) = cwd w"
  "files (remove_tests w) =
     fold try_unlink (map (os_path_join (cwd w)) (glob_glob ''test-*.html'' w)) (files w)"
  "out (remove_tests w) = out w @ [CHR 0x0A # ''Removing test-*.html files...''] @
     map outcome_line (test_outcomes (files w) (cwd w) (glob_glob ''test-*.html'' w))"
  "unlinks (remove_tests w) =
     unlinks w @ test_outcomes (files w) (cwd w) (glob_glob ''test-*.html'' w)"
proof -
  have g: "glob_glob ''test-*.html'' (print h w) = glob_glob ''test-*.html'' w" for h
    by (simp add: glob_glob_def)
  show "cwd (remove_tests w) = cwd w"
    "files (remove_tests w) =
     fold try_unlink (map (os_path_join (cwd w)) (glob_glob ''test-*.html'' w)) (files w)"
    "out (remove_tests w) = out w @ [CHR 0x0A # ''Removing test-*.html files...''] @
     map outcome_line (test_outcomes (files w) (cwd w) (glob_glob ''test-*.html'' w))"
    "unlinks (remove_tests w) =
     unlinks w @ test_outcomes (files w) (cwd w) (glob_glob ''test-*.html'' w)"
    by (simp_all add: remove_tests_def Let_def fold_remove_test_file g)
qed

lemma os_chdir_frontend_dir:
  "os_chdir frontend_dir w =
     (case map_of (files w) frontend_dir of
        None \<Rightarrow> (Some (FileNotFoundError frontend_dir), w)
      | Some n \<Rightarrow>
          if is_dir n then (None, w\<lparr>cwd := frontend_dir\<rparr>)
          else (Some (NotADirectoryError frontend_dir), w))"
  by (simp add: os_chdir_def resolve_abs isabs_frontend_dir)

lemma test_names_props:
  assumes "name \<in> set (test_names fs)"
  shows "test_html_path (in_frontend name)" and "map_of fs (in_frontend name) \<noteq> None"
    and "\<not> isabs name" and "CHR ''/'' \<notin> set name" and "fnmatch ''test-*.html'' name"
  using glob_names [of name "\<lparr>files = fs, cwd = frontend_dir, out = [], unlinks = []\<rparr>"] assms
  by (simp_all add: glob_glob_in_frontend test_names_def)

lemma join_test_names:
  "map (os_path_join frontend_dir) (test_names fs) = map in_frontend (test_names fs)"
  by (rule map_cong) (auto simp add: join_frontend_rel test_names_props)

lemma deletion_logic_fields:
  assumes "cwd w = frontend_dir"
  shows "cwd (deletion_logic w) = frontend_dir"
    and "files (deletion_logic w) = after_tests (files w)"
    and "out (deletion_logic w) = out w @ [''Starting cleanup of temporary files...'' @ [CHR 0x0A]]
       @ map (listed_line (files w)) files_to_remove
       @ [CHR 0x0A # ''Removing test-*.html files...'']
       @ map outcome_line (test_outcomes (after_listed (files w)) frontend_dir (test_names (files w)))"
    and "unlinks (deletion_logic w) = unlinks w @ concat (map (listed_call (files w)) files_to_remove)
       @ test_outcomes (after_listed (files w)) frontend_dir (test_names (files w))"
proof -
  define w2 where "w2 = print (''Starting cleanup of temporary files...'' @ [CHR 0x0A]) w"
  define w3 where "w3 = remove_listed w2"
  have dl: "deletion_logic w = remove_tests w3"
    by (simp add: deletion_logic_def w3_def w2_def)
  have w2: "cwd w2 = frontend_dir" "files w2 = files w" "unlinks w2 = unlinks w"
    "out w2 = out w @ [''Starting cleanup of temporary files...'' @ [CHR 0x0A]]"
    by (simp_all add: w2_def assms)
  have c: "cwd w3 = frontend_dir"
    by (simp add: w3_def remove_listed_fields w2)
  have g0: "glob_glob ''test-*.html'' w2 = test_names (files w)"
    by (simp add: glob_glob_in_frontend w2 test_names_def)
  have "glob_glob ''test-*.html'' w3 = glob_glob ''test-*.html'' (print [] w3)"
    by (simp add: glob_glob_def)
  also have "\<dots> = glob_glob ''test-*.html'' w2"
    unfolding w3_def by (rule glob_after_listed) (rule w2)
  finally have g: "glob_glob ''test-*.html'' w3 = test_names (files w)"
    using g0 by simp
  have f3: "files w3 = after_listed (files w)"
    by (simp add: w3_def remove_listed_fields after_listed_def w2)
  have o3: "out w3 = out w @ [''Starting cleanup of temporary files...'' @ [CHR 0x0A]]
       @ map (listed_line (files w)) files_to_remove"
    by (simp add: w3_def remove_listed_fields w2)
  have u3: "unlinks w3 = unlinks w @ concat (map (listed_call (files w)) files_to_remove)"
    by (simp add: w3_def remove_listed_fields w2)
  show "cwd (deletion_logic w) = frontend_dir"
    by (simp add: dl remove_tests_fields c)
  show "files (deletion_logic w) = after_tests (files w)"
    by (simp add: dl remove_tests_fields c g f3 after_tests_def join_test_names)
  show "out (deletion_logic w) = out w @ [''Starting cleanup of temporary files...'' @ [CHR 0x0A]]
       @ map (listed_line (files w)) files_to_remove
       @ [CHR 0x0A # ''Removing test-*.html files...'']
       @ map outcome_line (test_outcomes (after_listed (files w)) frontend_dir (test_names (files w)))"
    by (simp add: dl remove_tests_fields c g f3 o3)
  show "unlinks (deletion_logic w) = unlinks w @ concat (map (listed_call (files w)) files_to_remove)
       @ test_outcomes (after_listed (files w)) frontend_dir (test_names (files w))"
    by (simp add: dl remove_tests_fields c g f3 u3)
qed

lemma cleanup_past_chdir:
  assumes "map_of (files w) frontend_dir = Some d" and "is_dir d"
  shows "fst (cleanup script w) = None"
    and "cwd (snd (cleanup script w)) = frontend_dir"
    and "files (snd (cleanup script w)) = try_unlink (script_target script) (after_tests (files w))"
    and "out (snd (cleanup script w)) = out w @ run_lines (files w) script"
    and "unlinks (snd (cleanup script w)) = unlinks w @ run_calls (files w) script"
proof -
  define w1 where "w1 = w\<lparr>cwd := frontend_dir\<rparr>"
  define w2 where "w2 = deletion_logic w1"
  define w4 where "w4 = print (CHR 0x0A # ''Removing cleanup script...'')
    (print (CHR 0x0A # ''Cleanup complete!'') w2)"
  have w1: "cwd w1 = frontend_dir" "files w1 = files w" "out w1 = out w" "unlinks w1 = unlinks w"
    by (simp_all add: w1_def)
  have run: "cleanup script w = (None, remove_script script w4)"
    by (simp add: cleanup_def os_chdir_frontend_dir assms w1_def w2_def w4_def)
  note d = deletion_logic_fields [OF w1(1), unfolded w1(2-4), folded w2_def]
  have w4: "cwd w4 = frontend_dir" "files w4 = after_tests (files w)"
    "unlinks w4 = unlinks w2" "out w4 = out w2 @ [CHR 0x0A # ''Cleanup complete!'',
        CHR 0x0A # ''Removing cleanup script...'']"
    by (simp_all add: w4_def d)
  have r: "resolve w4 script = script_target script"
    by (simp add: resolve_def w4 script_target_def)
  show "fst (cleanup script w) = None" by (simp add: run)
  show "cwd (snd (cleanup script w)) = frontend_dir"
    by (simp add: run remove_script_fields w4)
  show "files (snd (cleanup script w)) = try_unlink (script_target script) (after_tests (files w))"
    by (simp add: run remove_script_fields w4 r)
  show "out (snd (cleanup script w)) = out w @ run_lines (files w) script"
    by (simp add: run remove_script_fields w4 r d run_lines_def)
  show "unlinks (snd (cleanup script w)) = unlinks w @ run_calls (files w) script"
    by (simp add: run remove_script_fields w4 r d run_calls_def)
qed

section \<open>The file system and the output after a run\<close>

lemma in_test_names_iff:
  "q \<in> in_frontend ` set (test_names fs) \<longleftrightarrow> test_html_path q \<and> map_of fs q \<noteq> None"
proof
  assume "q \<in> in_frontend ` set (test_names fs)"
  then show "test_html_path q \<and> map_of fs q \<noteq> None"
    using test_names_props(1,2) by blast
next
  assume a: "test_html_path q \<and> map_of fs q \<noteq> None"
  then obtain n where n: "(q, n) \<in> set fs"
    by (auto dest: map_of_SomeD)
  let ?name = "drop (length (dir_prefix frontend_dir)) q"
  from a have "take (length (dir_prefix frontend_dir)) q = dir_prefix frontend_dir"
    by (simp add: test_html_path_def entry_of_def Let_def)
  then have q: "q = in_frontend ?name"
    using append_take_drop_id [of "length (dir_prefix frontend_dir)" q]
    by (simp add: in_frontend_def dir_prefix_frontend_dir)
  have "?name \<in> set (test_names fs)"
    using n a by (force simp add: test_names_def)
  with q show "q \<in> in_frontend ` set (test_names fs)" by blast
qed

lemma deletable_present: "deletable fs q \<Longrightarrow> map_of fs q \<noteq> None"
  by (simp add: deletable_def split: option.splits)

lemma map_of_after_listed:
  "map_of (after_listed fs) q =
     (if q \<in> in_frontend ` set files_to_remove \<and> deletable fs q then None else map_of fs q)"
  by (simp add: after_listed_def map_of_fold_try_unlink)

lemma deletable_after_listed:
  "deletable (after_listed fs) q \<longleftrightarrow> deletable fs q \<and> q \<notin> in_frontend ` set files_to_remove"
  by (simp add: after_listed_def deletable_fold_try_unlink)

lemma map_of_after_tests:
  "map_of (after_tests fs) q =
     (if (q \<in> in_frontend ` set files_to_remove \<or> test_html_path q) \<and> deletable fs q
      then None else map_of fs q)"
  using deletable_present [of fs q]
  by (auto simp add: after_tests_def map_of_fold_try_unlink deletable_after_listed
      map_of_after_listed in_test_names_iff)

lemma deletable_after_tests:
  "deletable (after_tests fs) q \<longleftrightarrow>
     deletable fs q \<and> q \<notin> in_frontend ` set files_to_remove \<and> \<not> test_html_path q"
  using deletable_present [of fs q]
  by (auto simp add: after_tests_def deletable_fold_try_unlink deletable_after_listed
      in_test_names_iff)

lemma final_lookup:
  assumes "map_of (files w) frontend_dir = Some d" and "is_dir d"
  shows "map_of (files (snd (cleanup script w))) q =
     (if (q \<in> in_frontend ` set files_to_remove \<or> test_html_path q \<or> q = script_target script)
         \<and> deletable (files w) q
      then None else map_of (files w) q)"
  by (auto simp add: cleanup_past_chdir(3) [OF assms] map_of_try_unlink map_of_after_tests
      deletable_after_tests)


section \<open>Entering the directory, and the order of the calls\<close>

lemma join_listed: "map (os_path_join frontend_dir) files_to_remove = map in_frontend files_to_remove"
  by (rule map_cong) (auto simp add: join_frontend_rel listed_relative)

lemma chdir_cases:
  obtains (entered) d where "map_of (files w) frontend_dir = Some d" and "is_dir d"
      and "fst (os_chdir frontend_dir w) = None"
  | (refused) e where "fst (os_chdir frontend_dir w) = Some e"
      and "cleanup script w = (Some e, w)"
proof (cases "map_of (files w) frontend_dir")
  case None
  then show ?thesis
    by (intro refused [of "FileNotFoundError frontend_dir"])
      (simp_all add: os_chdir_frontend_dir cleanup_def)
next
  case (Some d)
  show ?thesis
  proof (cases "is_dir d")
    case True
    with Some show ?thesis
      by (intro entered [of d]) (simp_all add: os_chdir_frontend_dir)
  next
    case False
    with Some show ?thesis
      by (intro refused [of "NotADirectoryError frontend_dir"])
        (simp_all add: os_chdir_frontend_dir cleanup_def)
  qed
qed

lemma test_html_path_in_frontend:
  "test_html_path (in_frontend name) \<longleftrightarrow>
     name \<noteq> [] \<and> CHR ''/'' \<notin> set name \<and> fnmatch ''test-*.html'' name"
  by (simp add: test_html_path_def entry_of_def dir_prefix_frontend_dir in_frontend_def)

lemma test_html_path_frontend_dir: "\<not> test_html_path frontend_dir"
  by (simp add: test_html_path_def entry_of_def dir_prefix_frontend_dir)

lemma script_target_abs: "isabs s \<Longrightarrow> script_target s = s"
  by (simp add: script_target_def join_abs)

lemma script_target_in_frontend: "script_target (in_frontend s) = in_frontend s"
  by (simp add: script_target_abs isabs_in_frontend)




lemma test_names_glob:
  "glob_glob ''test-*.html'' (w\<lparr>cwd := frontend_dir\<rparr>) = test_names (files w)"
  by (simp add: glob_glob_in_frontend test_names_def)

section \<open>Counting error lines and failed calls\<close>







section \<open>The concrete worlds, evaluated\<close>

lemma isabs_frontend_append: "isabs (frontend_dir @ x)"
  by (simp add: isabs_def frontend_dir_def)

lemma join_frontend_append: "os_path_join a (frontend_dir @ x) = frontend_dir @ x"
  by (simp add: os_path_join_def isabs_frontend_append)

lemma test_html_path_append:
  "test_html_path (frontend_dir @ CHR ''/'' # name) \<longleftrightarrow>
     name \<noteq> [] \<and> CHR ''/'' \<notin> set name \<and> fnmatch ''test-*.html'' name"
  using test_html_path_in_frontend [of name] by (simp add: in_frontend_def)

lemmas concrete_paths =
  in_frontend_def script_path_def script_target_def join_frontend_append
  test_html_path_append test_html_path_frontend_dir
  dir_node_def plain_file_def locked_file_def







lemma project_glob:
  "glob_glob ''test-*.html'' ((boot project_fs)\<lparr>cwd := frontend_dir\<rparr>) = [''test-x.html'']"
  by (simp add: test_names_glob test_names_def)
    (simp add: boot_def project_fs_def concrete_paths dir_prefix_frontend_dir)

section \<open>What the pattern matches, and what each item gets\<close>

lemma glob_glob_names:
  assumes "name \<in> set (glob_glob pattern w)"
  shows "CHR ''/'' \<notin> set name" and "name \<noteq> []" and "fnmatch pattern name"
    and "map_of (files w) (dir_prefix (cwd w) @ name) \<noteq> None"
proof -
  from assms obtain p n where pn: "(p, n) \<in> set (files w)" "entry_of (cwd w) p"
    and name: "name = drop (length (dir_prefix (cwd w))) p"
    by (auto simp add: glob_glob_def listdir_def)
  from pn(2) have "take (length (dir_prefix (cwd w))) p = dir_prefix (cwd w)"
    by (simp add: entry_of_def Let_def)
  then have p: "p = dir_prefix (cwd w) @ name"
    using append_take_drop_id [of "length (dir_prefix (cwd w))" p] by (simp add: name)
  from pn(2) show "CHR ''/'' \<notin> set name" "name \<noteq> []"
    by (simp_all add: entry_of_def Let_def name)
  from assms show "fnmatch pattern name"
    by (simp add: glob_glob_def)
  from pn(1) p show "map_of (files w) (dir_prefix (cwd w) @ name) \<noteq> None"
    by (metis map_of_eq_None_iff fst_conv image_eqI)
qed

lemma slash_free_relative: "CHR ''/'' \<notin> set name \<Longrightarrow> \<not> isabs name"
  by (cases name) (auto simp add: isabs_def)







section \<open>Telling the lines apart\<close>

lemma msg_inject [simp]:
  "skipped_msg f = skipped_msg g \<longleftrightarrow> f = g"
  "removed_msg f = removed_msg g \<longleftrightarrow> f = g"
  by (simp_all add: skipped_msg_def removed_msg_def)













section \<open>Runs without a failed call\<close>







section \<open>A standard output that takes everything\<close>




lemma try_except_simps [simp]:
  "try_except (None, w) h = (None, w)" "try_except (Some e, w) h = h e w"
  by (simp_all add: try_except_def)







section \<open>Where a fatal exception comes from\<close>










section \<open>Runs on the ASCII device\<close>













section \<open>The scenario, for any listed file\<close>














section \<open>The properties\<close>

subsection \<open>The fixed list\<close>




subsection \<open>The pattern\<close>




subsection \<open>What the run leaves alone\<close>

text \<open>
  C3. A path that is not one of the fixed list joined to the frontend directory, is not a
  \<^verbatim>\<open>test-*.html\<close> entry of that directory, and is not the file \<^verbatim>\<open>__file__\<close> names, has the
  same node after the run as before it, whether or not the run got past \<^verbatim>\<open>os.chdir\<close>.
\<close>

theorem nothing_else_is_touched:
  assumes "q \<notin> set (map (os_path_join frontend_dir) files_to_remove)"
      and "\<not> test_html_path q"
      and "q \<noteq> script_target script"
  shows "map_of (files (snd (cleanup script w))) q = map_of (files w) q"
proof (cases w rule: chdir_cases [where script = script])
  case (entered d)
  from assms(1) have "q \<notin> in_frontend ` set files_to_remove"
    by (simp add: join_listed)
  with assms(2,3) show ?thesis
    by (simp add: final_lookup [OF entered(1,2)])
next
  case (refused e)
  then show ?thesis by simp
qed

theorem nothing_else_is_touched_witness:
  "in_frontend ''notes.txt'' \<notin> set (map (os_path_join frontend_dir) files_to_remove) \<and>
   \<not> test_html_path (in_frontend ''notes.txt'') \<and>
   in_frontend ''notes.txt'' \<noteq> script_target script_path \<and>
   map_of (files (snd (cleanup script_path (boot project_fs)))) (in_frontend ''notes.txt'')
     = Some plain_file"
proof -
  have a: "in_frontend ''notes.txt'' \<notin> set (map (os_path_join frontend_dir) files_to_remove)"
    unfolding join_listed by (simp add: in_frontend_inject image_iff files_to_remove_def)
  have b: "\<not> test_html_path (in_frontend ''notes.txt'')"
    by (simp add: test_html_path_in_frontend)
  have c: "in_frontend ''notes.txt'' \<noteq> script_target script_path"
    by (simp add: script_target_in_frontend script_path_def in_frontend_inject)
  have d: "map_of (files (boot project_fs)) (in_frontend ''notes.txt'') = Some plain_file"
    by (simp add: boot_def project_fs_def in_frontend_inject in_frontend_neq_dir script_path_def)
  show ?thesis
    using a b c d nothing_else_is_touched [OF a b c, of "boot project_fs"] by simp
qed

subsection \<open>The self-removal comes last\<close>




subsection \<open>A second pass\<close>




subsection \<open>Which errors end the process\<close>




subsection \<open>The scenario\<close>



subsection \<open>A missing frontend directory\<close>

text \<open>
  C8. If the frontend directory does not exist, \<^verbatim>\<open>os.chdir\<close> raises
  \<^verbatim>\<open>FileNotFoundError\<close> before anything else happens: the process ends with that
  exception, and the world is the one it started in: no file is removed, no
  \<^verbatim>\<open>os.remove\<close> is called, nothing is printed.
\<close>

theorem chdir_failure_leaves_everything:
  assumes "map_of (files w) frontend_dir = None"
  shows "cleanup script w = (Some (FileNotFoundError frontend_dir), w)"
  using assms by (simp add: cleanup_def os_chdir_frontend_dir)

theorem chdir_failure_leaves_everything_witness:
  "map_of (files (boot stray_fs)) frontend_dir = None \<and>
   cleanup ''/tmp/cleanup.py'' (boot stray_fs) = (Some (FileNotFoundError frontend_dir), boot stray_fs)"
proof -
  have h: "map_of (files (boot stray_fs)) frontend_dir = None"
    by (simp add: boot_def stray_fs_def frontend_dir_def)
  show ?thesis
    using h chdir_failure_leaves_everything [OF h, of "''/tmp/cleanup.py''"] by simp
qed

subsection \<open>The scope of the pattern\<close>

text \<open>
  C9. Whatever the pattern, \<^verbatim>\<open>glob.glob\<close> returns names of entries of the working
  directory, none with a separator in it. So \<^verbatim>\<open>public/test-supabase.html\<close>, which is in
  the fixed list, is never among the matches of \<^verbatim>\<open>test-*.html\<close>, and the second loop leaves
  every path below a subdirectory of the working directory as it was.
\<close>

theorem glob_stays_in_working_directory:
  "(\<forall>name \<in> set (glob_glob pattern w).
      CHR ''/'' \<notin> set name \<and> map_of (files w) (dir_prefix (cwd w) @ name) \<noteq> None) \<and>
   ''public/test-supabase.html'' \<in> set files_to_remove \<and>
   ''public/test-supabase.html'' \<notin> set (glob_glob ''test-*.html'' w) \<and>
   (CHR ''/'' \<in> set rel \<longrightarrow>
      map_of (files (remove_tests w)) (dir_prefix (cwd w) @ rel)
        = map_of (files w) (dir_prefix (cwd w) @ rel))"
proof -
  have a: "\<forall>name \<in> set (glob_glob pattern w).
      CHR ''/'' \<notin> set name \<and> map_of (files w) (dir_prefix (cwd w) @ name) \<noteq> None"
    using glob_glob_names(1,4) by blast
  have b: "''public/test-supabase.html'' \<in> set files_to_remove"
    by (simp add: files_to_remove_def)
  have c: "''public/test-supabase.html'' \<notin> set (glob_glob ''test-*.html'' w)"
    using glob_glob_names(1) [of "''public/test-supabase.html''" "''test-*.html''" w] by auto
  have d: "map_of (files (remove_tests w)) (dir_prefix (cwd w) @ rel)
        = map_of (files w) (dir_prefix (cwd w) @ rel)" if rel: "CHR ''/'' \<in> set rel"
  proof -
    have "dir_prefix (cwd w) @ rel \<noteq> os_path_join (cwd w) name"
      if "name \<in> set (glob_glob ''test-*.html'' w)" for name
    proof -
      from that have n: "CHR ''/'' \<notin> set name" by (rule glob_glob_names(1))
      then have "os_path_join (cwd w) name = dir_prefix (cwd w) @ name"
        by (simp add: os_path_join_def slash_free_relative)
      with n rel show ?thesis by auto
    qed
    then have "dir_prefix (cwd w) @ rel
        \<notin> set (map (os_path_join (cwd w)) (glob_glob ''test-*.html'' w))"
      by auto
    then show ?thesis
      by (simp only: remove_tests_fields map_of_fold_try_unlink if_False simp_thms)
  qed
  from a b c d show ?thesis by blast
qed

text \<open>
  The second loop in a directory with a test page and another one below \<^verbatim>\<open>public\<close>.
\<close>

theorem glob_stays_in_working_directory_witness:
  "glob_glob ''test-*.html'' ((boot project_fs)\<lparr>cwd := frontend_dir\<rparr>) = [''test-x.html''] \<and>
   CHR ''/'' \<notin> set ''test-x.html'' \<and>
   CHR ''/'' \<in> set ''public/test-y.html'' \<and>
   map_of (files (remove_tests ((boot project_fs)\<lparr>cwd := frontend_dir\<rparr>)))
     (in_frontend ''public/test-y.html'') = Some plain_file \<and>
   map_of (files (remove_tests ((boot project_fs)\<lparr>cwd := frontend_dir\<rparr>)))
     (in_frontend ''test-x.html'') = None"
proof -
  let ?w = "(boot project_fs)\<lparr>cwd := frontend_dir\<rparr>"
  have r: "CHR ''/'' \<in> set ''public/test-y.html''" by simp
  have p: "dir_prefix frontend_dir @ rel = in_frontend rel" for rel
    by (simp add: dir_prefix_frontend_dir in_frontend_def)
  have before: "map_of (files ?w) (in_frontend ''public/test-y.html'') = Some plain_file"
    by (simp add: boot_def project_fs_def in_frontend_inject in_frontend_neq_dir)
  have j: "os_path_join frontend_dir ''test-x.html'' = in_frontend ''test-x.html''"
    by (simp add: join_frontend_rel isabs_def)
  have "deletable (files ?w) (in_frontend ''test-x.html'')"
    by (simp add: deletable_def boot_def project_fs_def in_frontend_inject in_frontend_neq_dir
        plain_file_def)
  then have gone: "map_of (files (remove_tests ?w)) (in_frontend ''test-x.html'') = None"
    by (simp add: remove_tests_fields project_glob j map_of_try_unlink)
  from glob_stays_in_working_directory [of "''test-*.html''" ?w "''public/test-y.html''"]
  show ?thesis
    using r before gone by (simp add: p project_glob)
qed

subsection \<open>The self-removal is always attempted\<close>




end
